theory Spec2Isabelle
  imports Main "HOL-Library.Sublist"
begin

section \<open>Python values, exceptions and strings\<close>

text \<open>
  The services pass opaque Python values around (\<open>Any\<close>). The values that the modelled
  code inspects are strings, lists and dicts; everything else is an opaque object.
  A dict is an association list (keys are distinct in Python; lookup is \<open>map_of\<close>).
\<close>

datatype pyval =
    PNone
  | PBool bool
  | PInt int
  | PStr string
  | PList "pyval list"
  | PDict "(string \<times> pyval) list"
  | PObj nat
  | PBuiltin string
  | PModule string
  | PFunction string string

text \<open>An exception is its class name and the text \<open>str(e)\<close> gives.\<close>

datatype py_exception = Exc string string

fun exc_str :: "py_exception \<Rightarrow> string" where
  "exc_str (Exc cls msg) = msg"

text \<open>Python's truth value of an object, as \<open>if client:\<close> and \<open>x or y\<close> use it.\<close>

fun truthy :: "pyval \<Rightarrow> bool" where
  "truthy PNone = False"
| "truthy (PBool b) = b"
| "truthy (PInt i) = (i \<noteq> 0)"
| "truthy (PStr s) = (s \<noteq> [])"
| "truthy (PList xs) = (xs \<noteq> [])"
| "truthy (PDict kvs) = (kvs \<noteq> [])"
| "truthy (PObj n) = True"
| "truthy (PBuiltin n) = True"
| "truthy (PModule n) = True"
| "truthy (PFunction n src) = True"

text \<open>\<open>str(n)\<close> of a Python int, as an f-string formats \<open>{port}\<close>: decimal digits, a minus sign when negative.\<close>

definition digit_char :: "nat \<Rightarrow> char" where
  "digit_char d = ''0123456789'' ! d"

fun str_nat :: "nat \<Rightarrow> string" where
  "str_nat n = (if n < 10 then [digit_char n] else str_nat (n div 10) @ [digit_char (n mod 10)])"

declare str_nat.simps [simp del]

definition str_int :: "int \<Rightarrow> string" where
  "str_int i = (if i < 0 then CHR ''-'' # str_nat (nat (- i)) else str_nat (nat i))"

section \<open>The server handle (collaborator of the server service)\<close>

text \<open>
  \<open>self._server\<close> is an object of the protocol runtime. The service only calls
  \<open>start\<close>, \<open>stop\<close>, \<open>get_url\<close>, \<open>add_tool\<close>, \<open>add_resource\<close>, \<open>add_prompt\<close> on it and assigns
  its \<open>name\<close> attribute. The handle is modelled by the log of the calls made on it and by
  its behaviour: what a call returns or raises, given the calls made before.
\<close>

datatype server_call =
    HStart string int
  | HStop
  | HGetUrl
  | HAddTool string pyval string
  | HAddResource string pyval
  | HAddPrompt string string

record server_handle =
  hname :: "string option"
  hcalls :: "server_call list"
  hrespond :: "server_call list \<Rightarrow> server_call \<Rightarrow> py_exception + pyval"

definition invoke :: "server_handle \<Rightarrow> server_call \<Rightarrow> (py_exception + pyval) \<times> server_handle" where
  "invoke h c = (hrespond h (hcalls h) c, h\<lparr>hcalls := hcalls h @ [c]\<rparr>)"

section \<open>MCPServerService\<close>

text \<open>
  The fields \<open>_is_running\<close>, \<open>_host\<close>, \<open>_port\<close>, \<open>_server\<close>. After \<open>__init__\<close> has returned,
  \<open>_server\<close> holds the object the server class constructed, so the field is a handle.
\<close>

record server_service =
  is_running :: bool
  host :: string
  port :: int
  server :: server_handle

definition init_server_service :: "server_handle \<Rightarrow> server_service" where
  "init_server_service h = \<lparr>is_running = False, host = ''localhost'', port = 8000, server = h\<rparr>"

text \<open>
  Every operation returns the value it returns or the exception it raises, and the service
  as the call leaves it: an assignment made before a raise stays made.
\<close>

definition start :: "server_service \<Rightarrow> string \<Rightarrow> int \<Rightarrow> (py_exception + string) \<times> server_service" where
  "start s h p =
     (if is_running s then
        (Inr (''Server is already running: http://'' @ host s @ '':'' @ str_int (port s)), s)
      else
        let s1 = s\<lparr>host := h\<rparr>;
            s2 = s1\<lparr>port := p\<rparr>;
            s3 = s2\<lparr>server := (server s2)\<lparr>hname := Some ''mcp-server''\<rparr>\<rparr>
        in case invoke (server s3) (HStart h p) of
             (Inl e, hd') \<Rightarrow>
               (Inl (Exc ''RuntimeError'' (''Failed to start server: '' @ exc_str e)), s3\<lparr>server := hd'\<rparr>)
           | (Inr r, hd') \<Rightarrow>
               (Inr (''Server started at http://'' @ h @ '':'' @ str_int p),
                s3\<lparr>server := hd', is_running := True\<rparr>))"

definition stop :: "server_service \<Rightarrow> (py_exception + string) \<times> server_service" where
  "stop s =
     (if \<not> is_running s then (Inr ''Server is not currently running'', s)
      else case invoke (server s) HStop of
             (Inl e, hd') \<Rightarrow>
               (Inl (Exc ''RuntimeError'' (''Failed to stop server: '' @ exc_str e)), s\<lparr>server := hd'\<rparr>)
           | (Inr r, hd') \<Rightarrow> (Inr ''Server stopped'', s\<lparr>server := hd', is_running := False\<rparr>))"

text \<open>
  \<open>get_url\<close> returns whatever the handle's accessor returned when it is truthy (a
  non-empty string for a handle that keeps its contract), else the synthesized URL.
\<close>

definition get_url :: "server_service \<Rightarrow> (py_exception + pyval) \<times> server_service" where
  "get_url s =
     (if \<not> is_running s then (Inr (PStr ''Server is not currently running''), s)
      else case invoke (server s) HGetUrl of
             (Inl e, hd') \<Rightarrow>
               (Inl (Exc ''RuntimeError'' (''Failed to get server URL: '' @ exc_str e)), s\<lparr>server := hd'\<rparr>)
           | (Inr url, hd') \<Rightarrow>
               (Inr (if truthy url then url else PStr (''http://'' @ host s @ '':'' @ str_int (port s))),
                s\<lparr>server := hd'\<rparr>))"

definition add_resource :: "server_service \<Rightarrow> string \<Rightarrow> pyval \<Rightarrow> string \<Rightarrow> (py_exception + string) \<times> server_service" where
  "add_resource s name content description =
     (if \<not> is_running s then
        (Inr ''Error: Server is not currently running, please start the server first'', s)
      else case invoke (server s) (HAddResource name content) of
             (Inl e, hd') \<Rightarrow>
               (Inl (Exc ''RuntimeError'' (''Failed to add resource: '' @ exc_str e)), s\<lparr>server := hd'\<rparr>)
           | (Inr r, hd') \<Rightarrow>
               (Inr (''Resource '' @ [CHR 0x27] @ name @ [CHR 0x27] @ '' added to server''), s\<lparr>server := hd'\<rparr>))"

definition add_prompt :: "server_service \<Rightarrow> string \<Rightarrow> string \<Rightarrow> string \<Rightarrow> (py_exception + string) \<times> server_service" where
  "add_prompt s name content description =
     (if \<not> is_running s then
        (Inr ''Error: Server is not currently running, please start the server first'', s)
      else case invoke (server s) (HAddPrompt name content) of
             (Inl e, hd') \<Rightarrow>
               (Inl (Exc ''RuntimeError'' (''Failed to add prompt: '' @ exc_str e)), s\<lparr>server := hd'\<rparr>)
           | (Inr r, hd') \<Rightarrow>
               (Inr (''Prompt '' @ [CHR 0x27] @ name @ [CHR 0x27] @ '' added to server''), s\<lparr>server := hd'\<rparr>))"


section \<open>The execution sandbox\<close>

definition safe_builtins :: "string list" where
  "safe_builtins =
     [''dict'', ''list'', ''tuple'', ''set'', ''str'', ''int'', ''float'', ''bool'',
      ''None'', ''True'', ''False'', ''len'', ''Exception'', ''TypeError'', ''ValueError'',
      ''print'', ''range'', ''enumerate'', ''zip'', ''map'', ''filter'', ''sum'', ''min'', ''max'']"

text \<open>
  The Python runtime the module runs on is not part of the repository. The sandbox code
  uses three things of it, taken here as parameters: the table \<open>__builtins__\<close> (name,
  object); \<open>exec(text, table)\<close>, which either raises (a \<open>SyntaxError\<close> when the text does
  not compile, or whatever running the text raises) or returns the table with the
  bindings the text made, whichever names those are; and \<open>repr\<close> of a string, which is
  what \<open>str(e)\<close> gives for the \<open>KeyError\<close> of a missing key.
\<close>

record python_env =
  builtins :: "(string \<times> pyval) list"
  py_exec :: "string \<Rightarrow> (string \<rightharpoonup> pyval) \<Rightarrow> py_exception + (string \<rightharpoonup> pyval)"
  str_repr :: "string \<Rightarrow> string"

text \<open>
  \<open>textwrap.indent(text, prefix)\<close>: the text is cut into lines that keep their line ends
  (\<open>str.splitlines(True)\<close>) and the prefix is put before every line that is not made of
  whitespace only. A character is a code point below 256; the line boundaries and the
  whitespace characters are those of Python in that range.
\<close>

definition is_linebreak :: "char \<Rightarrow> bool" where
  "is_linebreak c = (c \<in> set [CHR 0x0A, CHR 0x0D, CHR 0x0B, CHR 0x0C, CHR 0x1C, CHR 0x1D, CHR 0x1E,
                                CHR 0x85])"

definition is_space :: "char \<Rightarrow> bool" where
  "is_space c = (c \<in> set [CHR 0x20, CHR 0x09, CHR 0x0A, CHR 0x0D, CHR 0x0B, CHR 0x0C,
                            CHR 0x1C, CHR 0x1D, CHR 0x1E, CHR 0x1F, CHR 0x85, CHR 0xA0])"

fun splitlines_keepends :: "string \<Rightarrow> string \<Rightarrow> string list" where
  "splitlines_keepends cur [] = (if cur = [] then [] else [cur])"
| "splitlines_keepends cur [c] = [cur @ [c]]"
| "splitlines_keepends cur (c # d # ds) =
     (if c = CHR 0x0D \<and> d = CHR 0x0A then (cur @ [c, d]) # splitlines_keepends [] ds
      else if is_linebreak c then (cur @ [c]) # splitlines_keepends [] (d # ds)
      else splitlines_keepends (cur @ [c]) (d # ds))"

definition indent :: "string \<Rightarrow> string \<Rightarrow> string" where
  "indent text pfx =
     concat (map (\<lambda>line. if list_ex (\<lambda>c. \<not> is_space c) line then pfx @ line else line)
                 (splitlines_keepends [] text))"

text \<open>
  The restricted symbol table of \<open>_compile_tool_code\<close>: the entries of \<open>__builtins__\<close>
  whose name is in \<open>safe_builtins\<close>, then \<open>requests\<close> and \<open>json\<close>.
\<close>

definition build_sandbox :: "python_env \<Rightarrow> (string \<rightharpoonup> pyval)" where
  "build_sandbox env =
     (let sandbox = fold (\<lambda>(k, v) sb. if k \<in> set safe_builtins then sb(k \<mapsto> v) else sb)
                         (builtins env) Map.empty;
          sandbox = sandbox(''requests'' \<mapsto> PModule ''requests'');
          sandbox = sandbox(''json'' \<mapsto> PModule ''json'')
      in sandbox)"

text \<open>
  \<open>_compile_tool_code\<close>: the table is built, the \<open>def\<close> text is put together and
  executed in the table, and the entry under \<open>name\<close> is returned; \<open>sandbox[name]\<close> raises
  \<open>KeyError\<close> when executing the text did not bind that name.
\<close>

definition compile_tool_code :: "python_env \<Rightarrow> string \<Rightarrow> string \<Rightarrow> py_exception + pyval" where
  "compile_tool_code env name code_str =
     (let sandbox = build_sandbox env;
          full_code = ''def '' @ name @ ''(**kwargs):'' @ [CHR 0x0A] @ indent code_str ''    ''
      in case py_exec env full_code sandbox of
           Inl e \<Rightarrow> Inl e
         | Inr sandbox' \<Rightarrow>
             (case sandbox' name of
                None \<Rightarrow> Inl (Exc ''KeyError'' (str_repr env name))
              | Some f \<Rightarrow> Inr f))"

definition add_tool ::
  "python_env \<Rightarrow> server_service \<Rightarrow> string \<Rightarrow> string \<Rightarrow> string \<Rightarrow> string
     \<Rightarrow> (py_exception + string) \<times> server_service" where
  "add_tool env s name description code code_type =
     (if \<not> is_running s then
        (Inr ''Error: Server is not currently running, please start the server first'', s)
      else case compile_tool_code env name code of
             Inl e \<Rightarrow> (Inl (Exc ''RuntimeError'' (''Failed to add tool: '' @ exc_str e)), s)
           | Inr tool_func \<Rightarrow>
               (case invoke (server s) (HAddTool name tool_func description) of
                  (Inl e, hd') \<Rightarrow>
                    (Inl (Exc ''RuntimeError'' (''Failed to add tool: '' @ exc_str e)), s\<lparr>server := hd'\<rparr>)
                | (Inr r, hd') \<Rightarrow>
                    (Inr (''Tool '' @ [CHR 0x27] @ name @ [CHR 0x27] @ '' added to server''),
                     s\<lparr>server := hd'\<rparr>)))"

section \<open>The client handle (collaborator of the client service)\<close>

text \<open>
  \<open>self.client\<close> is a single session or a multi-server router of the protocol runtime.
  A call on it, or on a sub-session the router handed out, is the receiver, the method
  name, the positional arguments and the keyword arguments. As for the server handle, the
  model keeps the log of the calls and the behaviour of the object.
\<close>

datatype receiver = TheClient | SubSession pyval

datatype py_call = Call receiver string "pyval list" "(string \<times> pyval) list"

record client_handle =
  ccalls :: "py_call list"
  crespond :: "py_call list \<Rightarrow> py_call \<Rightarrow> py_exception + pyval"

definition cinvoke :: "client_handle \<Rightarrow> py_call \<Rightarrow> (py_exception + pyval) \<times> client_handle" where
  "cinvoke c call = (crespond c (ccalls c) call, c\<lparr>ccalls := ccalls c @ [call]\<rparr>)"

text \<open>
  The names the module imports from the runtime, each of which construction may raise:
  \<open>ClientSession\<close>, \<open>StdioServerParameters\<close> and \<open>stdio_client\<close> are \<open>None\<close> when their
  import failed; \<open>MultiServerMCPClient\<close> is what \<open>create_multi_server_client_sync\<close> calls.
\<close>

record client_runtime =
  client_session_cls :: "(string \<Rightarrow> pyval \<Rightarrow> py_exception + client_handle) option"
  stdio_server_parameters_cls :: "(string \<Rightarrow> string list \<Rightarrow> py_exception + pyval) option"
  stdio_client_fn :: "(pyval \<Rightarrow> py_exception + client_handle) option"
  multi_server_client_cls :: "(string \<times> pyval) list \<Rightarrow> py_exception + client_handle"

datatype url_or_configs = Url string | Configs "(string \<times> pyval) list"

definition null_output_stream :: pyval where
  "null_output_stream = PObj 0"

section \<open>MCPClientService\<close>

record client_service =
  client :: "client_handle option"
  is_connected :: bool
  is_multi_client :: bool
  verbose :: bool

definition init_client_service :: "bool \<Rightarrow> client_service" where
  "init_client_service v = \<lparr>client = None, is_connected = False, is_multi_client = False, verbose = v\<rparr>"

definition check_connection :: "client_service \<Rightarrow> py_exception option" where
  "check_connection s =
     (if \<not> is_connected s then Some (Exc ''ValueError'' ''Client service not connected'') else None)"

text \<open>
  \<open>x or d\<close> where \<open>x\<close> is \<open>None\<close>, a string or a list: \<open>None\<close> and the empty value are
  falsy and give \<open>d\<close>.
\<close>

definition or_default :: "'a list option \<Rightarrow> 'a list \<Rightarrow> 'a list" where
  "or_default x d = (case x of None \<Rightarrow> d | Some v \<Rightarrow> if v = [] then d else v)"

definition create_multi_server_client ::
  "client_runtime \<Rightarrow> (string \<times> pyval) list \<Rightarrow> py_exception + client_handle" where
  "create_multi_server_client rt server_configs =
     (case multi_server_client_cls rt server_configs of
        Inl e \<Rightarrow> Inl (Exc ''ValueError'' (''Failed to create multi-server client: '' @ exc_str e))
      | Inr c \<Rightarrow> Inr c)"

definition create ::
  "client_runtime \<Rightarrow> client_service \<Rightarrow> url_or_configs \<Rightarrow> string \<Rightarrow> string option
     \<Rightarrow> string list option \<Rightarrow> pyval \<Rightarrow> (py_exception + string) \<times> client_service" where
  "create rt s target transport_type command args output_stream =
     (if is_connected s then (Inl (Exc ''ValueError'' ''Client service already connected''), s)
      else
        let output_stream = (if output_stream = PNone then null_output_stream else output_stream)
        in case target of
             Configs cfg \<Rightarrow>
               (case create_multi_server_client rt cfg of
                  Inl e \<Rightarrow>
                    (Inl (Exc ''ValueError'' (''Failed to create multi-server client: '' @ exc_str e)), s)
                | Inr c \<Rightarrow>
                    (Inr ''Multi-server client created'',
                     s\<lparr>client := Some c, is_multi_client := True, is_connected := True\<rparr>))
           | Url url \<Rightarrow>
               if transport_type = ''sse'' then
                 (case client_session_cls rt of
                    None \<Rightarrow>
                      (Inl (Exc ''ValueError'' (''Failed to create SSE client: '' @ ''ClientSession not defined'')), s)
                  | Some session_cls \<Rightarrow>
                      (case session_cls url output_stream of
                         Inl e \<Rightarrow>
                           (Inl (Exc ''ValueError'' (''Failed to create SSE client: '' @ exc_str e)), s)
                       | Inr c \<Rightarrow>
                           (Inr (''Client created connected to '' @ url),
                            s\<lparr>client := Some c, is_connected := True, is_multi_client := False\<rparr>)))
               else if transport_type = ''stdio'' then
                 (case (stdio_server_parameters_cls rt, stdio_client_fn rt) of
                    (Some params_cls, Some client_fn) \<Rightarrow>
                      let cmd = or_default command ''python'';
                          cmd_args = or_default args [url]
                      in (case params_cls cmd cmd_args of
                            Inl e \<Rightarrow>
                              (Inl (Exc ''ValueError'' (''Failed to create stdio client: '' @ exc_str e)), s)
                          | Inr params \<Rightarrow>
                              (case client_fn params of
                                 Inl e \<Rightarrow>
                                   (Inl (Exc ''ValueError'' (''Failed to create stdio client: '' @ exc_str e)), s)
                               | Inr c \<Rightarrow>
                                   (Inr (''Client created connected to '' @ url),
                                    s\<lparr>client := Some c, is_connected := True, is_multi_client := False\<rparr>)))
                  | _ \<Rightarrow>
                      (Inl (Exc ''ValueError''
                              (''Failed to create stdio client: '' @
                               ''StdioServerParameters or stdio_client not defined'')), s))
               else (Inl (Exc ''ValueError'' (''Unsupported transport type: '' @ transport_type)), s))"

definition connect :: "client_service \<Rightarrow> (py_exception + string) \<times> client_service" where
  "connect s =
     (case client s of
        None \<Rightarrow> (Inl (Exc ''ValueError'' ''Client not created''), s)
      | Some c \<Rightarrow>
          (case cinvoke c (Call TheClient ''connect'' [] []) of
             (Inl e, c') \<Rightarrow> (Inl e, s\<lparr>client := Some c'\<rparr>)
           | (Inr r, c') \<Rightarrow> (Inr ''Connection successful'', s\<lparr>client := Some c', is_connected := True\<rparr>)))"

definition disconnect :: "client_service \<Rightarrow> (py_exception + string) \<times> client_service" where
  "disconnect s =
     (case client s of
        None \<Rightarrow> (Inl (Exc ''ValueError'' ''Client not created''), s)
      | Some c \<Rightarrow>
          (case cinvoke c (Call TheClient ''disconnect'' [] []) of
             (Inl e, c') \<Rightarrow> (Inl e, s\<lparr>client := Some c'\<rparr>)
           | (Inr r, c') \<Rightarrow> (Inr ''Disconnected'', s\<lparr>client := Some c', is_connected := False\<rparr>)))"

text \<open>
  \<open>return await obj.method(...)\<close>: the call is made on the handle, and its result or its
  exception is the operation's own, as it is.
\<close>

definition forward :: "client_service \<Rightarrow> client_handle \<Rightarrow> py_call \<Rightarrow> (py_exception + pyval) \<times> client_service" where
  "forward s c call = (case cinvoke c call of (r, c') \<Rightarrow> (r, s\<lparr>client := Some c'\<rparr>))"

definition call_tool ::
  "client_service \<Rightarrow> string \<Rightarrow> string \<Rightarrow> (string \<times> pyval) list \<Rightarrow> (py_exception + pyval) \<times> client_service" where
  "call_tool s server_name tool_name kwargs =
     (case check_connection s of
        Some e \<Rightarrow> (Inl e, s)
      | None \<Rightarrow>
          (case client s of
             None \<Rightarrow> (Inl (Exc ''ValueError'' ''Client not created''), s)
           | Some c \<Rightarrow>
               if is_multi_client s then
                 forward s c (Call TheClient ''call_tool'' [PStr server_name, PStr tool_name, PDict kwargs] [])
               else
                 forward s c (Call TheClient ''call_tool'' [PStr tool_name] kwargs)))"

definition list_tools :: "client_service \<Rightarrow> bool \<Rightarrow> (py_exception + pyval) \<times> client_service" where
  "list_tools s include_server_prefix =
     (case check_connection s of
        Some e \<Rightarrow> (Inl e, s)
      | None \<Rightarrow>
          (case client s of
             None \<Rightarrow> (Inl (Exc ''ValueError'' ''Client not created''), s)
           | Some c \<Rightarrow>
               if is_multi_client s then
                 forward s c (Call TheClient ''list_all_tools'' [] [(''include_prefix'', PBool include_server_prefix)])
               else
                 forward s c (Call TheClient ''list_tools'' [] [])))"

text \<open>
  The four operations that resolve the named server first share one shape in the source:
  in multi-server mode \<open>get_client(server_name)\<close> is awaited, the call goes to the
  sub-session when that is truthy, and the empty value is returned otherwise.
\<close>

definition get_prompt ::
  "client_service \<Rightarrow> string \<Rightarrow> pyval \<Rightarrow> string \<Rightarrow> (py_exception + pyval) \<times> client_service" where
  "get_prompt s prompt_name arguments server_name =
     (case check_connection s of
        Some e \<Rightarrow> (Inl e, s)
      | None \<Rightarrow>
          (case client s of
             None \<Rightarrow> (Inl (Exc ''ValueError'' ''Client not created''), s)
           | Some c \<Rightarrow>
               if is_multi_client s then
                 (case cinvoke c (Call TheClient ''get_client'' [PStr server_name] []) of
                    (Inl e, c') \<Rightarrow> (Inl e, s\<lparr>client := Some c'\<rparr>)
                  | (Inr sub, c') \<Rightarrow>
                      if truthy sub then
                        forward s c' (Call (SubSession sub) ''get_prompt''
                                        [PStr prompt_name, if truthy arguments then arguments else PDict []] [])
                      else (Inr (PDict []), s\<lparr>client := Some c'\<rparr>))
               else
                 forward s c (Call TheClient ''get_prompt'' [PStr prompt_name, arguments] [])))"

definition list_resources :: "client_service \<Rightarrow> string \<Rightarrow> (py_exception + pyval) \<times> client_service" where
  "list_resources s server_name =
     (case check_connection s of
        Some e \<Rightarrow> (Inl e, s)
      | None \<Rightarrow>
          (case client s of
             None \<Rightarrow> (Inl (Exc ''ValueError'' ''Client not created''), s)
           | Some c \<Rightarrow>
               if is_multi_client s then
                 (case cinvoke c (Call TheClient ''get_client'' [PStr server_name] []) of
                    (Inl e, c') \<Rightarrow> (Inl e, s\<lparr>client := Some c'\<rparr>)
                  | (Inr sub, c') \<Rightarrow>
                      if truthy sub then forward s c' (Call (SubSession sub) ''list_resources'' [] [])
                      else (Inr (PList []), s\<lparr>client := Some c'\<rparr>))
               else
                 forward s c (Call TheClient ''list_resources'' [] [])))"

definition read_resource ::
  "client_service \<Rightarrow> string \<Rightarrow> string \<Rightarrow> (py_exception + pyval) \<times> client_service" where
  "read_resource s resource_name server_name =
     (case check_connection s of
        Some e \<Rightarrow> (Inl e, s)
      | None \<Rightarrow>
          (case client s of
             None \<Rightarrow> (Inl (Exc ''ValueError'' ''Client not created''), s)
           | Some c \<Rightarrow>
               if is_multi_client s then
                 (case cinvoke c (Call TheClient ''get_client'' [PStr server_name] []) of
                    (Inl e, c') \<Rightarrow> (Inl e, s\<lparr>client := Some c'\<rparr>)
                  | (Inr sub, c') \<Rightarrow>
                      if truthy sub then
                        forward s c' (Call (SubSession sub) ''read_resource'' [PStr resource_name] [])
                      else (Inr (PDict []), s\<lparr>client := Some c'\<rparr>))
               else
                 forward s c (Call TheClient ''read_resource'' [PStr resource_name] [])))"

definition list_prompts :: "client_service \<Rightarrow> string \<Rightarrow> (py_exception + pyval) \<times> client_service" where
  "list_prompts s server_name =
     (case check_connection s of
        Some e \<Rightarrow> (Inl e, s)
      | None \<Rightarrow>
          (case client s of
             None \<Rightarrow> (Inl (Exc ''ValueError'' ''Client not created''), s)
           | Some c \<Rightarrow>
               if is_multi_client s then
                 (case cinvoke c (Call TheClient ''get_client'' [PStr server_name] []) of
                    (Inl e, c') \<Rightarrow> (Inl e, s\<lparr>client := Some c'\<rparr>)
                  | (Inr sub, c') \<Rightarrow>
                      if truthy sub then forward s c' (Call (SubSession sub) ''list_prompts'' [] [])
                      else (Inr (PList []), s\<lparr>client := Some c'\<rparr>))
               else
                 forward s c (Call TheClient ''list_prompts'' [] [])))"

section \<open>Conversion of a prompt to a chat prompt template\<close>

text \<open>
  The message classes of the orchestration framework are taken as plain constructors:
  \<open>HumanMessage(content=c)\<close>, \<open>AIMessage(content=c)\<close>, \<open>ChatMessage(role=r, content=c)\<close>,
  \<open>MessagesPlaceholder(variable_name=n)\<close>, and \<open>ChatPromptTemplate.from_messages\<close> keeps
  the list it is given.
\<close>

datatype lc_message =
    HumanMessage pyval
  | AIMessage pyval
  | ChatMessage pyval pyval
  | MessagesPlaceholder string

datatype chat_prompt_template = ChatPromptTemplate "lc_message list"

fun type_name :: "pyval \<Rightarrow> string" where
  "type_name PNone = ''NoneType''"
| "type_name (PBool b) = ''bool''"
| "type_name (PInt i) = ''int''"
| "type_name (PStr s) = ''str''"
| "type_name (PList xs) = ''list''"
| "type_name (PDict kvs) = ''dict''"
| "type_name (PObj n) = ''object''"
| "type_name (PBuiltin n) = ''builtin_function_or_method''"
| "type_name (PModule n) = ''module''"
| "type_name (PFunction n src) = ''function''"

text \<open>\<open>d.get(k, default)\<close> on a dict.\<close>

definition dict_get :: "(string \<times> pyval) list \<Rightarrow> string \<Rightarrow> pyval \<Rightarrow> pyval" where
  "dict_get d k dflt = (case map_of d k of None \<Rightarrow> dflt | Some v \<Rightarrow> v)"

text \<open>
  \<open>for msg in mcp_prompt\<close>: a list yields its items, a dict its keys, a string its
  characters; the other values of the model are not iterable.
\<close>

fun py_iter :: "pyval \<Rightarrow> py_exception + pyval list" where
  "py_iter (PList xs) = Inr xs"
| "py_iter (PDict kvs) = Inr (map (\<lambda>kv. PStr (fst kv)) kvs)"
| "py_iter (PStr s) = Inr (map (\<lambda>c. PStr [c]) s)"
| "py_iter v = Inl (Exc ''TypeError'' ([CHR 0x27] @ type_name v @ [CHR 0x27] @ '' object is not iterable''))"

text \<open>
  The body of the loop, the same text in \<open>get_langchain_prompt_sync\<close> and
  \<open>get_langchain_prompt_async\<close>: \<open>msg.get\<close> exists on a dict only.
\<close>

definition convert_message :: "pyval \<Rightarrow> py_exception + lc_message" where
  "convert_message msg =
     (case msg of
        PDict d \<Rightarrow>
          Inr (if dict_get d ''role'' (PStr []) = PStr ''user'' then
                 HumanMessage (dict_get d ''content'' (PStr []))
               else if dict_get d ''role'' (PStr []) = PStr ''assistant'' then
                 AIMessage (dict_get d ''content'' (PStr []))
               else
                 ChatMessage (dict_get d ''role'' (PStr ''system'')) (dict_get d ''content'' (PStr [])))
      | _ \<Rightarrow>
          Inl (Exc ''AttributeError''
                 ([CHR 0x27] @ type_name msg @ [CHR 0x27] @ '' object has no attribute '' @
                  [CHR 0x27] @ ''get'' @ [CHR 0x27])))"

fun convert_messages :: "pyval list \<Rightarrow> lc_message list \<Rightarrow> py_exception + lc_message list" where
  "convert_messages [] messages = Inr messages"
| "convert_messages (msg # rest) messages =
     (case convert_message msg of
        Inl e \<Rightarrow> Inl e
      | Inr m \<Rightarrow> convert_messages rest (messages @ [m]))"

text \<open>What both functions do with \<open>mcp_prompt\<close> once they have it.\<close>

definition assemble_template :: "pyval \<Rightarrow> bool \<Rightarrow> py_exception + chat_prompt_template" where
  "assemble_template mcp_prompt include_messages_placeholder =
     (case py_iter mcp_prompt of
        Inl e \<Rightarrow> Inl e
      | Inr items \<Rightarrow>
          (case convert_messages items [] of
             Inl e \<Rightarrow> Inl e
           | Inr messages \<Rightarrow>
               if include_messages_placeholder then
                 Inr (ChatPromptTemplate (messages @ [MessagesPlaceholder ''chat_history'']))
               else Inr (ChatPromptTemplate messages)))"

text \<open>
  The condition \<open>self._is_multi_client and target_server\<close> with \<open>target_server: str | None\<close>:
  the name to address when it holds.
\<close>

definition selected_target :: "client_service \<Rightarrow> string option \<Rightarrow> string option" where
  "selected_target s target_server =
     (case target_server of
        None \<Rightarrow> None
      | Some t \<Rightarrow> if is_multi_client s \<and> t \<noteq> [] then Some t else None)"

definition get_langchain_prompt_sync ::
  "client_service \<Rightarrow> string option \<Rightarrow> bool \<Rightarrow> (py_exception + chat_prompt_template) \<times> client_service" where
  "get_langchain_prompt_sync s target_server include_messages_placeholder =
     (case check_connection s of
        Some e \<Rightarrow> (Inl e, s)
      | None \<Rightarrow>
          (case client s of
             None \<Rightarrow> (Inl (Exc ''ValueError'' ''Client not created''), s)
           | Some c \<Rightarrow>
               (case cinvoke c (case selected_target s target_server of
                                  Some t \<Rightarrow> Call TheClient ''get_prompt'' [PStr t] []
                                | None \<Rightarrow> Call TheClient ''get_prompt'' [] []) of
                  (Inl e, c') \<Rightarrow> (Inl e, s\<lparr>client := Some c'\<rparr>)
                | (Inr mcp_prompt, c') \<Rightarrow>
                    (assemble_template mcp_prompt include_messages_placeholder, s\<lparr>client := Some c'\<rparr>))))"

definition get_langchain_prompt_async ::
  "client_service \<Rightarrow> string option \<Rightarrow> bool \<Rightarrow> (py_exception + chat_prompt_template) \<times> client_service" where
  "get_langchain_prompt_async s target_server include_messages_placeholder =
     (case check_connection s of
        Some e \<Rightarrow> (Inl e, s)
      | None \<Rightarrow>
          (case client s of
             None \<Rightarrow> (Inl (Exc ''ValueError'' ''Client not created''), s)
           | Some c \<Rightarrow>
               (case selected_target s target_server of
                  Some t \<Rightarrow>
                    (case cinvoke c (Call TheClient ''get_client'' [PStr t] []) of
                       (Inl e, c') \<Rightarrow> (Inl e, s\<lparr>client := Some c'\<rparr>)
                     | (Inr sub, c') \<Rightarrow>
                         if truthy sub then
                           (case cinvoke c' (Call (SubSession sub) ''get_prompt'' [] []) of
                              (Inl e, c'') \<Rightarrow> (Inl e, s\<lparr>client := Some c''\<rparr>)
                            | (Inr mcp_prompt, c'') \<Rightarrow>
                                (assemble_template mcp_prompt include_messages_placeholder,
                                 s\<lparr>client := Some c''\<rparr>))
                         else
                           (assemble_template (PList []) include_messages_placeholder,
                            s\<lparr>client := Some c'\<rparr>))
                | None \<Rightarrow>
                    (case cinvoke c (Call TheClient ''get_prompt'' [] []) of
                       (Inl e, c') \<Rightarrow> (Inl e, s\<lparr>client := Some c'\<rparr>)
                     | (Inr mcp_prompt, c') \<Rightarrow>
                         (assemble_template mcp_prompt include_messages_placeholder,
                          s\<lparr>client := Some c'\<rparr>)))))"

section \<open>Runs of the client service\<close>

text \<open>
  A use of the service through its operations is a list of calls, each with its
  arguments; \<open>run\<close> gives the service after them, whatever each returned or raised.
\<close>

datatype client_op =
    OpCreate client_runtime url_or_configs string "string option" "string list option" pyval
  | OpConnect
  | OpDisconnect
  | OpCallTool string string "(string \<times> pyval) list"
  | OpListTools bool
  | OpListResources string
  | OpReadResource string string
  | OpListPrompts string
  | OpGetPrompt string pyval string

fun step :: "client_service \<Rightarrow> client_op \<Rightarrow> client_service" where
  "step s (OpCreate rt target transport_type command args output_stream) =
     snd (create rt s target transport_type command args output_stream)"
| "step s OpConnect = snd (connect s)"
| "step s OpDisconnect = snd (disconnect s)"
| "step s (OpCallTool server_name tool_name kwargs) = snd (call_tool s server_name tool_name kwargs)"
| "step s (OpListTools include_server_prefix) = snd (list_tools s include_server_prefix)"
| "step s (OpListResources server_name) = snd (list_resources s server_name)"
| "step s (OpReadResource resource_name server_name) = snd (read_resource s resource_name server_name)"
| "step s (OpListPrompts server_name) = snd (list_prompts s server_name)"
| "step s (OpGetPrompt prompt_name arguments server_name) = snd (get_prompt s prompt_name arguments server_name)"

fun run :: "client_service \<Rightarrow> client_op list \<Rightarrow> client_service" where
  "run s [] = s"
| "run s (op # ops) = run (step s op) ops"

section \<open>The conversion in the words of the specification\<close>

text \<open>
  The specification's account of the role mapping, to be compared with \<open>convert_message\<close>:
  role \<open>user\<close> gives a human message, role \<open>assistant\<close> an assistant message, any other
  role a role-carrying message that keeps the role, and a missing role counts as \<open>system\<close>.
  The content is the entry's content, the empty string when there is none.
\<close>

definition spec_role_message :: "(string \<times> pyval) list \<Rightarrow> lc_message" where
  "spec_role_message d =
     (let content = (case map_of d ''content'' of None \<Rightarrow> PStr [] | Some v \<Rightarrow> v)
      in case map_of d ''role'' of
           None \<Rightarrow> ChatMessage (PStr ''system'') content
         | Some r \<Rightarrow>
             if r = PStr ''user'' then HumanMessage content
             else if r = PStr ''assistant'' then AIMessage content
             else ChatMessage r content)"

section \<open>Concrete collaborators and inputs\<close>

text \<open>A server handle that accepts every call, and one whose every call raises.\<close>

definition ok_handle :: server_handle where
  "ok_handle = \<lparr>hname = None, hcalls = [], hrespond = (\<lambda>past c. Inr PNone)\<rparr>"

definition failing_handle :: server_handle where
  "failing_handle =
     \<lparr>hname = None, hcalls = [], hrespond = (\<lambda>past c. Inl (Exc ''Exception'' ''Start failed''))\<rparr>"

definition running_service :: server_service where
  "running_service = (init_server_service ok_handle)\<lparr>is_running := True\<rparr>"

text \<open>A running service whose handle raises on every call.\<close>

definition refusing_handle :: server_handle where
  "refusing_handle =
     \<lparr>hname = Some ''mcp-server'', hcalls = [HStart ''localhost'' 8000],
      hrespond = (\<lambda>past c. Inl (Exc ''Exception'' ''Add resource failed''))\<rparr>"

definition refusing_service :: server_service where
  "refusing_service = (init_server_service refusing_handle)\<lparr>is_running := True\<rparr>"





text \<open>A client handle that answers every call with the same value.\<close>

definition echo_client :: client_handle where
  "echo_client = \<lparr>ccalls = [], crespond = (\<lambda>past call. Inr (PStr ''ok''))\<rparr>"

text \<open>A router that knows no server: \<open>get_client\<close> gives \<open>None\<close>, every other call raises.\<close>

definition empty_router :: client_handle where
  "empty_router =
     \<lparr>ccalls = [],
      crespond = (\<lambda>past call. case call of
                     Call rcv m pos kw \<Rightarrow>
                       if m = ''get_client'' then Inr PNone
                       else Inl (Exc ''KeyError'' ''unknown server''))\<rparr>"

definition connected_service :: "client_handle \<Rightarrow> bool \<Rightarrow> client_service" where
  "connected_service c multi =
     \<lparr>client = Some c, is_connected = True, is_multi_client = multi, verbose = False\<rparr>"

definition example_prompt :: "(string \<times> pyval) list list" where
  "example_prompt =
     [[(''role'', PStr ''system''), (''content'', PStr ''Be brief.'')],
      [(''role'', PStr ''user''), (''content'', PStr ''Hi'')],
      [(''content'', PStr ''no role'')],
      [(''role'', PStr ''assistant''), (''content'', PStr ''Hello'')]]"

definition prompt_client :: client_handle where
  "prompt_client = \<lparr>ccalls = [], crespond = (\<lambda>past call. Inr (PList (map PDict example_prompt)))\<rparr>"

text \<open>
  A runtime with the stdio imports only, whose parameter object records what it was built
  from, and a runtime with the SSE session class only.
\<close>

definition stdio_runtime :: client_runtime where
  "stdio_runtime =
     \<lparr>client_session_cls = None,
      stdio_server_parameters_cls =
        Some (\<lambda>cmd cmd_args. Inr (PDict [(''command'', PStr cmd), (''args'', PList (map PStr cmd_args))])),
      stdio_client_fn = Some (\<lambda>params. Inr \<lparr>ccalls = [], crespond = (\<lambda>past call. Inr params)\<rparr>),
      multi_server_client_cls = (\<lambda>cfg. Inl (Exc ''Exception'' ''no router''))\<rparr>"

definition sse_runtime :: client_runtime where
  "sse_runtime =
     \<lparr>client_session_cls = Some (\<lambda>url stream. Inr \<lparr>ccalls = [], crespond = (\<lambda>past call. Inr (PStr url))\<rparr>),
      stdio_server_parameters_cls = None,
      stdio_client_fn = None,
      multi_server_client_cls = (\<lambda>cfg. Inl (Exc ''Exception'' ''no router''))\<rparr>"

section \<open>Facts about strings\<close>

lemma str_nat_small: "n < 10 \<Longrightarrow> str_nat n = [digit_char n]"
  by (simp add: str_nat.simps [of n])

lemma str_nat_big: "\<not> n < 10 \<Longrightarrow> str_nat n = str_nat (n div 10) @ [digit_char (n mod 10)]"
  by (simp add: str_nat.simps [of n])

lemma str_int_8000: "str_int 8000 = ''8000''"
  by (simp add: str_int_def str_nat_small str_nat_big digit_char_def)

lemma str_int_8080: "str_int 8080 = ''8080''"
  by (simp add: str_int_def str_nat_small str_nat_big digit_char_def)

lemma not_running_sublist:
  "sublist ''not currently running'' ''Error: Server is not currently running, please start the server first''"
proof -
  have "''Error: Server is not currently running, please start the server first''
        = ''Error: Server is '' @ ''not currently running'' @ '', please start the server first''"
    by simp
  then show ?thesis by (simp only: sublist_appendI)
qed

lemma name_in_quotes_sublist: "sublist name (pre @ [CHR 0x27] @ name @ [CHR 0x27] @ post)"
proof -
  have "pre @ [CHR 0x27] @ name @ [CHR 0x27] @ post = (pre @ [CHR 0x27]) @ name @ ([CHR 0x27] @ post)"
    by simp
  then show ?thesis by (simp only: sublist_appendI)
qed

section \<open>The server service\<close>

subsection \<open>Starting a running server\<close>

text \<open>
  Claim C7. \<open>start\<close> is idempotent while running: whatever host \<open>h2\<close> and port \<open>p2\<close> are
  passed, a service that is running with stored host \<open>h1\<close> and port \<open>p1\<close> returns a success
  string that contains the existing URL \<open>http://h1:p1\<close>, the service is left as it was
  (host, port and running flag unchanged), and no call is made on the handle (its call
  log is unchanged, so its start primitive is not invoked).
\<close>

theorem start_idempotent_while_running:
  assumes "is_running s"
  shows "fst (start s h2 p2) = Inr (''Server is already running: '' @ ''http://'' @ host s @ '':'' @ str_int (port s))
       \<and> sublist (''http://'' @ host s @ '':'' @ str_int (port s))
                  (''Server is already running: '' @ ''http://'' @ host s @ '':'' @ str_int (port s))
       \<and> snd (start s h2 p2) = s
       \<and> host (snd (start s h2 p2)) = host s
       \<and> port (snd (start s h2 p2)) = port s
       \<and> is_running (snd (start s h2 p2))
       \<and> hcalls (server (snd (start s h2 p2))) = hcalls (server s)"
proof (intro conjI)
  have r: "start s h2 p2 = (Inr (''Server is already running: http://'' @ host s @ '':'' @ str_int (port s)), s)"
    using assms by (simp add: start_def)
  show "fst (start s h2 p2) = Inr (''Server is already running: '' @ ''http://'' @ host s @ '':'' @ str_int (port s))"
    using r by simp
  show "sublist (''http://'' @ host s @ '':'' @ str_int (port s))
                  (''Server is already running: '' @ ''http://'' @ host s @ '':'' @ str_int (port s))"
    by (rule sublist_append_leftI)
  show "snd (start s h2 p2) = s" using r by simp
  then show "host (snd (start s h2 p2)) = host s" by simp
  show "port (snd (start s h2 p2)) = port s" using r by simp
  show "is_running (snd (start s h2 p2))" using r assms by simp
  show "hcalls (server (snd (start s h2 p2))) = hcalls (server s)" using r by simp
qed

theorem start_idempotent_while_running_witness:
  "is_running running_service
   \<and> fst (start running_service ''example.org'' 9000) = Inr ''Server is already running: http://localhost:8000''
   \<and> port (snd (start running_service ''example.org'' 9000)) = 8000"
proof -
  have run: "is_running running_service" by (simp add: running_service_def)
  have h: "host running_service = ''localhost''"
    by (simp add: running_service_def init_server_service_def)
  have p: "port running_service = 8000"
    by (simp add: running_service_def init_server_service_def)
  from start_idempotent_while_running [OF run, of "''example.org''" 9000]
  have "fst (start running_service ''example.org'' 9000) = Inr ''Server is already running: http://localhost:8000''"
   and "port (snd (start running_service ''example.org'' 9000)) = 8000"
    by (simp_all only: h p str_int_8000 append.simps)
  with run show ?thesis by blast
qed

subsection \<open>Mutations need a running server\<close>

text \<open>
  Claim C6, as amended. For every name, content and description, \<open>add_resource\<close>, and
  likewise \<open>add_tool\<close> and \<open>add_prompt\<close>, on a server that is not running return an error
  string that contains "not currently running" and leave the whole service as it was: no
  call is made on the handle (the returned service, handle and call log included, is the
  one passed in). On a running server \<open>add_resource\<close> makes the call on the handle: when
  the handle returns, the result is a confirmation string that contains the resource
  name; when the handle raises, \<open>add_resource\<close> raises a \<open>RuntimeError\<close> whose message is
  "Failed to add resource: " followed by the cause. \<open>add_prompt\<close> does the same with its
  own two strings.
\<close>

theorem add_requires_running:
  "(\<not> is_running s \<longrightarrow>
       add_resource s name content description =
         (Inr ''Error: Server is not currently running, please start the server first'', s)
     \<and> add_tool env s name description code code_type =
         (Inr ''Error: Server is not currently running, please start the server first'', s)
     \<and> add_prompt s name pcontent description =
         (Inr ''Error: Server is not currently running, please start the server first'', s)
     \<and> sublist ''not currently running''
                ''Error: Server is not currently running, please start the server first'')
   \<and> (is_running s \<longrightarrow>
       fst (add_resource s name content description) =
         (case hrespond (server s) (hcalls (server s)) (HAddResource name content) of
            Inl e \<Rightarrow> Inl (Exc ''RuntimeError'' (''Failed to add resource: '' @ exc_str e))
          | Inr r \<Rightarrow> Inr (''Resource '' @ [CHR 0x27] @ name @ [CHR 0x27] @ '' added to server''))
     \<and> hcalls (server (snd (add_resource s name content description))) =
         hcalls (server s) @ [HAddResource name content]
     \<and> fst (add_prompt s name pcontent description) =
         (case hrespond (server s) (hcalls (server s)) (HAddPrompt name pcontent) of
            Inl e \<Rightarrow> Inl (Exc ''RuntimeError'' (''Failed to add prompt: '' @ exc_str e))
          | Inr r \<Rightarrow> Inr (''Prompt '' @ [CHR 0x27] @ name @ [CHR 0x27] @ '' added to server''))
     \<and> hcalls (server (snd (add_prompt s name pcontent description))) =
         hcalls (server s) @ [HAddPrompt name pcontent])
   \<and> sublist name (''Resource '' @ [CHR 0x27] @ name @ [CHR 0x27] @ '' added to server'')
   \<and> sublist name (''Prompt '' @ [CHR 0x27] @ name @ [CHR 0x27] @ '' added to server'')"
proof (intro conjI impI)
  assume n: "\<not> is_running s"
  show "add_resource s name content description =
         (Inr ''Error: Server is not currently running, please start the server first'', s)"
    using n by (simp add: add_resource_def)
  show "add_tool env s name description code code_type =
         (Inr ''Error: Server is not currently running, please start the server first'', s)"
    using n by (simp add: add_tool_def)
  show "add_prompt s name pcontent description =
         (Inr ''Error: Server is not currently running, please start the server first'', s)"
    using n by (simp add: add_prompt_def)
next
  show "sublist ''not currently running''
                ''Error: Server is not currently running, please start the server first''"
    by (rule not_running_sublist)
next
  assume y: "is_running s"
  show "fst (add_resource s name content description) =
         (case hrespond (server s) (hcalls (server s)) (HAddResource name content) of
            Inl e \<Rightarrow> Inl (Exc ''RuntimeError'' (''Failed to add resource: '' @ exc_str e))
          | Inr r \<Rightarrow> Inr (''Resource '' @ [CHR 0x27] @ name @ [CHR 0x27] @ '' added to server''))"
    using y by (simp add: add_resource_def invoke_def split: sum.splits)
  show "hcalls (server (snd (add_resource s name content description))) =
         hcalls (server s) @ [HAddResource name content]"
    using y by (simp add: add_resource_def invoke_def split: sum.splits)
  show "fst (add_prompt s name pcontent description) =
         (case hrespond (server s) (hcalls (server s)) (HAddPrompt name pcontent) of
            Inl e \<Rightarrow> Inl (Exc ''RuntimeError'' (''Failed to add prompt: '' @ exc_str e))
          | Inr r \<Rightarrow> Inr (''Prompt '' @ [CHR 0x27] @ name @ [CHR 0x27] @ '' added to server''))"
    using y by (simp add: add_prompt_def invoke_def split: sum.splits)
  show "hcalls (server (snd (add_prompt s name pcontent description))) =
         hcalls (server s) @ [HAddPrompt name pcontent]"
    using y by (simp add: add_prompt_def invoke_def split: sum.splits)
next
  show "sublist name (''Resource '' @ [CHR 0x27] @ name @ [CHR 0x27] @ '' added to server'')"
    by (rule name_in_quotes_sublist)
next
  show "sublist name (''Prompt '' @ [CHR 0x27] @ name @ [CHR 0x27] @ '' added to server'')"
    by (rule name_in_quotes_sublist)
qed

theorem add_requires_running_witness:
  "\<not> is_running (init_server_service ok_handle)
   \<and> add_resource (init_server_service ok_handle) ''cities'' (PList [PStr ''A'', PStr ''B'']) [] =
       (Inr ''Error: Server is not currently running, please start the server first'',
        init_server_service ok_handle)
   \<and> is_running running_service
   \<and> fst (add_resource running_service ''cities'' (PList [PStr ''A'', PStr ''B'']) []) =
       Inr (''Resource '' @ [CHR 0x27] @ ''cities'' @ [CHR 0x27] @ '' added to server'')
   \<and> fst (add_prompt running_service ''greeting'' ''Hello, {name}!'' []) =
       Inr (''Prompt '' @ [CHR 0x27] @ ''greeting'' @ [CHR 0x27] @ '' added to server'')
   \<and> is_running refusing_service
   \<and> fst (add_prompt refusing_service ''greeting'' ''Hello, {name}!'' []) =
       Inl (Exc ''RuntimeError'' ''Failed to add prompt: Add resource failed'')"
proof -
  have n: "\<not> is_running (init_server_service ok_handle)"
    by (simp add: init_server_service_def)
  have y: "is_running running_service"
    by (simp add: running_service_def)
  have z: "is_running refusing_service"
    by (simp add: refusing_service_def)
  have a: "hrespond (server running_service) past call = Inr PNone" for past call
    by (simp add: running_service_def init_server_service_def ok_handle_def)
  have b: "hrespond (server refusing_service) past call = Inl (Exc ''Exception'' ''Add resource failed'')"
    for past call
    by (simp add: refusing_service_def init_server_service_def refusing_handle_def)
  from n add_requires_running [of "init_server_service ok_handle" "''cities''" "PList [PStr ''A'', PStr ''B'']" "[]"]
  have 1: "add_resource (init_server_service ok_handle) ''cities'' (PList [PStr ''A'', PStr ''B'']) [] =
       (Inr ''Error: Server is not currently running, please start the server first'',
        init_server_service ok_handle)"
    by blast
  from y add_requires_running [of running_service "''cities''" "PList [PStr ''A'', PStr ''B'']" "[]"]
  have 2: "fst (add_resource running_service ''cities'' (PList [PStr ''A'', PStr ''B'']) []) =
       Inr (''Resource '' @ [CHR 0x27] @ ''cities'' @ [CHR 0x27] @ '' added to server'')"
    by (simp add: a)
  from y add_requires_running [of running_service "''greeting''" _ "[]" _ _ _ "''Hello, {name}!''"]
  have 3: "fst (add_prompt running_service ''greeting'' ''Hello, {name}!'' []) =
       Inr (''Prompt '' @ [CHR 0x27] @ ''greeting'' @ [CHR 0x27] @ '' added to server'')"
    by (simp add: a)
  from z add_requires_running [of refusing_service "''greeting''" _ "[]" _ _ _ "''Hello, {name}!''"]
  have 4: "fst (add_prompt refusing_service ''greeting'' ''Hello, {name}!'' []) =
       Inl (Exc ''RuntimeError'' ''Failed to add prompt: Add resource failed'')"
    by (simp add: b)
  from n y z 1 2 3 4 show ?thesis by blast
qed

text \<open>
  The claim as stated fails: on a running server whose handle raises, \<open>add_resource\<close>
  raises a \<open>RuntimeError\<close> and returns no confirmation string.
\<close>

theorem add_resource_raising_handle_counterexample:
  "is_running refusing_service
   \<and> fst (add_resource refusing_service ''cities'' (PList [PStr ''A'', PStr ''B'']) []) =
       Inl (Exc ''RuntimeError'' ''Failed to add resource: Add resource failed'')
   \<and> fst (add_resource refusing_service ''cities'' (PList [PStr ''A'', PStr ''B'']) []) \<noteq>
       Inr (''Resource '' @ [CHR 0x27] @ ''cities'' @ [CHR 0x27] @ '' added to server'')"
  by (simp add: add_resource_def invoke_def refusing_service_def init_server_service_def
      refusing_handle_def)

subsection \<open>A start that fails\<close>

text \<open>
  Claim C4, as amended. For every host and port, when the server is not running and the
  handle's start primitive raises, \<open>start(host, port)\<close> raises a \<open>RuntimeError\<close> whose
  message is "Failed to start server: " followed by the cause, and the running flag stays
  false. The stored host and port are not kept: they are assigned before the primitive is
  invoked and hold the arguments of the failed call afterwards.
\<close>

theorem start_failure_state:
  assumes "\<not> is_running s"
    and "hrespond (server s) (hcalls (server s)) (HStart h p) = Inl e"
  shows "fst (start s h p) = Inl (Exc ''RuntimeError'' (''Failed to start server: '' @ exc_str e))
       \<and> \<not> is_running (snd (start s h p))
       \<and> host (snd (start s h p)) = h
       \<and> port (snd (start s h p)) = p"
  using assms by (simp add: start_def invoke_def Let_def)

theorem start_failure_state_witness:
  "\<not> is_running (init_server_service failing_handle)
   \<and> fst (start (init_server_service failing_handle) ''0.0.0.0'' 8080) =
       Inl (Exc ''RuntimeError'' ''Failed to start server: Start failed'')
   \<and> \<not> is_running (snd (start (init_server_service failing_handle) ''0.0.0.0'' 8080))
   \<and> port (snd (start (init_server_service failing_handle) ''0.0.0.0'' 8080)) = 8080"
proof -
  have n: "\<not> is_running (init_server_service failing_handle)"
    by (simp add: init_server_service_def)
  have f: "hrespond (server (init_server_service failing_handle))
             (hcalls (server (init_server_service failing_handle))) (HStart ''0.0.0.0'' 8080)
           = Inl (Exc ''Exception'' ''Start failed'')"
    by (simp add: init_server_service_def failing_handle_def)
  from start_failure_state [OF n f] n show ?thesis by simp
qed

text \<open>
  The claim as stated fails: a service constructed with the defaults (\<open>localhost\<close>, 8000)
  whose handle refuses to start holds the host and port of the failed call afterwards.
\<close>

theorem start_failure_keeps_state_counterexample:
  "\<not> is_running (init_server_service failing_handle)
   \<and> fst (start (init_server_service failing_handle) ''example.org'' 9000) =
       Inl (Exc ''RuntimeError'' ''Failed to start server: Start failed'')
   \<and> host (init_server_service failing_handle) = ''localhost''
   \<and> host (snd (start (init_server_service failing_handle) ''example.org'' 9000)) = ''example.org''
   \<and> host (snd (start (init_server_service failing_handle) ''example.org'' 9000))
       \<noteq> host (init_server_service failing_handle)
   \<and> port (init_server_service failing_handle) = 8000
   \<and> port (snd (start (init_server_service failing_handle) ''example.org'' 9000)) = 9000
   \<and> port (snd (start (init_server_service failing_handle) ''example.org'' 9000))
       \<noteq> port (init_server_service failing_handle)"
  by (simp add: start_def invoke_def Let_def init_server_service_def failing_handle_def)

subsection \<open>Registering a tool\<close>














section \<open>The client service\<close>

subsection \<open>The two shapes of a tool call\<close>

text \<open>
  Claim C2. For every server name \<open>sn\<close>, tool name \<open>tn\<close> and keyword arguments \<open>kw\<close>, on a
  connected service with a handle: in multi-endpoint mode \<open>call_tool\<close> makes exactly the
  call \<open>call_tool(sn, tn, kw)\<close> on the router, three positional arguments with \<open>kw\<close> as one
  mapping; in single-endpoint mode it makes exactly the call \<open>call_tool(tn, **kw)\<close> on the
  session, the entries of \<open>kw\<close> as keyword arguments and the server name left out. In both
  modes what the handle returns or raises is the result, unchanged.
\<close>

theorem call_tool_shapes:
  assumes "is_connected s" and "client s = Some c"
  shows "(is_multi_client s \<longrightarrow>
            call_tool s sn tn kw =
              (crespond c (ccalls c) (Call TheClient ''call_tool'' [PStr sn, PStr tn, PDict kw] []),
               s\<lparr>client := Some (c\<lparr>ccalls := ccalls c @ [Call TheClient ''call_tool'' [PStr sn, PStr tn, PDict kw] []]\<rparr>)\<rparr>))
       \<and> (\<not> is_multi_client s \<longrightarrow>
            call_tool s sn tn kw =
              (crespond c (ccalls c) (Call TheClient ''call_tool'' [PStr tn] kw),
               s\<lparr>client := Some (c\<lparr>ccalls := ccalls c @ [Call TheClient ''call_tool'' [PStr tn] kw]\<rparr>)\<rparr>))"
  using assms by (simp add: call_tool_def check_connection_def forward_def cinvoke_def)

theorem call_tool_shapes_witness:
  "fst (call_tool (connected_service echo_client True) ''serverA'' ''toolX'' [(''a'', PInt 1)]) = Inr (PStr ''ok'')
   \<and> client (snd (call_tool (connected_service echo_client True) ''serverA'' ''toolX'' [(''a'', PInt 1)]))
       = Some (echo_client\<lparr>ccalls := [Call TheClient ''call_tool'' [PStr ''serverA'', PStr ''toolX'', PDict [(''a'', PInt 1)]] []]\<rparr>)
   \<and> client (snd (call_tool (connected_service echo_client False) ''serverA'' ''toolX'' [(''a'', PInt 1)]))
       = Some (echo_client\<lparr>ccalls := [Call TheClient ''call_tool'' [PStr ''toolX''] [(''a'', PInt 1)]]\<rparr>)"
  using call_tool_shapes [of "connected_service echo_client True" echo_client "''serverA''" "''toolX''" "[(''a'', PInt 1)]"]
        call_tool_shapes [of "connected_service echo_client False" echo_client "''serverA''" "''toolX''" "[(''a'', PInt 1)]"]
  by (simp add: connected_service_def echo_client_def)

subsection \<open>A server name the router does not resolve\<close>

text \<open>
  Claim C3. In multi-endpoint mode, for every server name for which the router's
  \<open>get_client\<close> returns a falsy value, \<open>list_resources\<close> and \<open>list_prompts\<close> return the
  empty list and \<open>read_resource\<close> and \<open>get_prompt\<close> the empty mapping, without raising.
  \<open>call_tool\<close> makes no such resolution: the only call it makes on the router is
  \<open>call_tool\<close> itself, and an exception the router raises for it reaches the caller as it
  is.
\<close>

theorem unresolved_server_soft_miss:
  assumes "is_connected s" and "client s = Some c" and "is_multi_client s"
  shows "(crespond c (ccalls c) (Call TheClient ''get_client'' [PStr sn] []) = Inr sub \<and> \<not> truthy sub \<longrightarrow>
            fst (list_resources s sn) = Inr (PList [])
          \<and> fst (list_prompts s sn) = Inr (PList [])
          \<and> fst (read_resource s rn sn) = Inr (PDict [])
          \<and> fst (get_prompt s pn pargs sn) = Inr (PDict []))
       \<and> client (snd (call_tool s sn tn kw))
           = Some (c\<lparr>ccalls := ccalls c @ [Call TheClient ''call_tool'' [PStr sn, PStr tn, PDict kw] []]\<rparr>)
       \<and> (crespond c (ccalls c) (Call TheClient ''call_tool'' [PStr sn, PStr tn, PDict kw] []) = Inl e \<longrightarrow>
            fst (call_tool s sn tn kw) = Inl e)"
  using assms
  by (simp add: list_resources_def list_prompts_def read_resource_def get_prompt_def call_tool_def
      check_connection_def forward_def cinvoke_def)

theorem unresolved_server_soft_miss_witness:
  "fst (list_resources (connected_service empty_router True) ''nowhere'') = Inr (PList [])
   \<and> fst (list_prompts (connected_service empty_router True) ''nowhere'') = Inr (PList [])
   \<and> fst (read_resource (connected_service empty_router True) ''r'' ''nowhere'') = Inr (PDict [])
   \<and> fst (get_prompt (connected_service empty_router True) ''p'' PNone ''nowhere'') = Inr (PDict [])
   \<and> fst (call_tool (connected_service empty_router True) ''nowhere'' ''toolX'' []) = Inl (Exc ''KeyError'' ''unknown server'')"
  using unresolved_server_soft_miss [of "connected_service empty_router True" empty_router "''nowhere''" PNone
          "''r''" "''p''" PNone "''toolX''" "[]" "Exc ''KeyError'' ''unknown server''"]
  by (simp add: connected_service_def empty_router_def)

subsection \<open>The order of the two precondition checks\<close>

text \<open>
  Claim C5, as amended. Each per-call dispatch operation (\<open>call_tool\<close>, \<open>list_tools\<close>,
  \<open>list_resources\<close>, \<open>read_resource\<close>, \<open>list_prompts\<close>, \<open>get_prompt\<close>) enforces the
  connected-state precondition first: on a service that is not connected it raises
  "Client service not connected", whether or not a handle exists, and leaves the service
  as it was. The created-state precondition is the second, independent check: on a
  service marked connected that has no handle the operation raises "Client not created".
  So on a freshly constructed service each operation raises the connection-state error.
\<close>

theorem precondition_order:
  "(\<not> is_connected s \<longrightarrow>
       call_tool s sn tn kw = (Inl (Exc ''ValueError'' ''Client service not connected''), s)
     \<and> list_tools s pre = (Inl (Exc ''ValueError'' ''Client service not connected''), s)
     \<and> list_resources s sn = (Inl (Exc ''ValueError'' ''Client service not connected''), s)
     \<and> read_resource s rn sn = (Inl (Exc ''ValueError'' ''Client service not connected''), s)
     \<and> list_prompts s sn = (Inl (Exc ''ValueError'' ''Client service not connected''), s)
     \<and> get_prompt s pn pargs sn = (Inl (Exc ''ValueError'' ''Client service not connected''), s))
   \<and> (is_connected s \<and> client s = None \<longrightarrow>
       call_tool s sn tn kw = (Inl (Exc ''ValueError'' ''Client not created''), s)
     \<and> list_tools s pre = (Inl (Exc ''ValueError'' ''Client not created''), s)
     \<and> list_resources s sn = (Inl (Exc ''ValueError'' ''Client not created''), s)
     \<and> read_resource s rn sn = (Inl (Exc ''ValueError'' ''Client not created''), s)
     \<and> list_prompts s sn = (Inl (Exc ''ValueError'' ''Client not created''), s)
     \<and> get_prompt s pn pargs sn = (Inl (Exc ''ValueError'' ''Client not created''), s))"
  by (simp add: call_tool_def list_tools_def list_resources_def read_resource_def list_prompts_def
      get_prompt_def check_connection_def)

theorem precondition_order_witness:
  "list_tools (init_client_service False) True
     = (Inl (Exc ''ValueError'' ''Client service not connected''), init_client_service False)
   \<and> list_tools ((init_client_service False)\<lparr>is_connected := True\<rparr>) True
     = (Inl (Exc ''ValueError'' ''Client not created''), (init_client_service False)\<lparr>is_connected := True\<rparr>)"
  using precondition_order [of "init_client_service False" "''default''" "''t''" "[]" True "''r''" "''p''" PNone]
        precondition_order [of "(init_client_service False)\<lparr>is_connected := True\<rparr>" "''default''" "''t''" "[]" True "''r''" "''p''" PNone]
  by (simp add: init_client_service_def)

text \<open>
  The claim as stated fails: on a freshly constructed service, with no handle and never
  connected, \<open>call_tool\<close> raises the connection-state error, not the creation-state error.
\<close>

theorem fresh_service_counterexample:
  "client (init_client_service False) = None
   \<and> \<not> is_connected (init_client_service False)
   \<and> fst (call_tool (init_client_service False) ''default'' ''test_tool'' [])
       = Inl (Exc ''ValueError'' ''Client service not connected'')
   \<and> fst (call_tool (init_client_service False) ''default'' ''test_tool'' [])
       \<noteq> Inl (Exc ''ValueError'' ''Client not created'')"
  by (simp add: init_client_service_def call_tool_def check_connection_def)

subsection \<open>From a prompt to a chat prompt template\<close>

lemma convert_message_dict: "convert_message (PDict d) = Inr (spec_role_message d)"
  by (simp add: convert_message_def spec_role_message_def dict_get_def split: option.splits)

lemma convert_messages_dicts:
  "convert_messages (map PDict ds) acc = Inr (acc @ map spec_role_message ds)"
  by (induction ds arbitrary: acc) (simp_all add: convert_message_dict)

lemma assemble_template_dicts:
  "assemble_template (PList (map PDict ds)) ph =
     Inr (ChatPromptTemplate (map spec_role_message ds @ (if ph then [MessagesPlaceholder ''chat_history''] else [])))"
  by (simp add: assemble_template_def convert_messages_dicts)

lemma example_prompt_converted:
  "map spec_role_message example_prompt =
     [ChatMessage (PStr ''system'') (PStr ''Be brief.''), HumanMessage (PStr ''Hi''),
      ChatMessage (PStr ''system'') (PStr ''no role''), AIMessage (PStr ''Hello'')]"
  by (simp add: example_prompt_def spec_role_message_def)

text \<open>
  Claim C8. For every sequence \<open>ds\<close> of role-tagged message mappings obtained from the
  underlying prompt, the conversion gives one message per entry, in input order, as the
  specification maps it (\<open>spec_role_message\<close>: \<open>user\<close> to a human message, \<open>assistant\<close> to an
  assistant message, any other role to a role-carrying message with the role kept, a
  missing role as \<open>system\<close>), followed by exactly one placeholder when the
  history-placeholder option is on and by nothing otherwise. This holds for the shared
  conversion, for \<open>get_langchain_prompt_sync\<close>, and for \<open>get_langchain_prompt_async\<close> both
  when it asks the handle itself and when it asks a resolved sub-session.
\<close>

theorem prompt_conversion:
  "assemble_template (PList (map PDict ds)) ph =
     Inr (ChatPromptTemplate (map spec_role_message ds @ (if ph then [MessagesPlaceholder ''chat_history''] else [])))
   \<and> (is_connected s \<and> client s = Some c
        \<and> crespond c (ccalls c) (case selected_target s ts of
                                    Some t \<Rightarrow> Call TheClient ''get_prompt'' [PStr t] []
                                  | None \<Rightarrow> Call TheClient ''get_prompt'' [] []) = Inr (PList (map PDict ds))
      \<longrightarrow> fst (get_langchain_prompt_sync s ts ph) =
            Inr (ChatPromptTemplate (map spec_role_message ds @ (if ph then [MessagesPlaceholder ''chat_history''] else []))))
   \<and> (is_connected s \<and> client s = Some c \<and> selected_target s ts = None
        \<and> crespond c (ccalls c) (Call TheClient ''get_prompt'' [] []) = Inr (PList (map PDict ds))
      \<longrightarrow> fst (get_langchain_prompt_async s ts ph) =
            Inr (ChatPromptTemplate (map spec_role_message ds @ (if ph then [MessagesPlaceholder ''chat_history''] else []))))
   \<and> (is_connected s \<and> client s = Some c \<and> selected_target s ts = Some t
        \<and> crespond c (ccalls c) (Call TheClient ''get_client'' [PStr t] []) = Inr sub \<and> truthy sub
        \<and> crespond c (ccalls c @ [Call TheClient ''get_client'' [PStr t] []]) (Call (SubSession sub) ''get_prompt'' [] [])
            = Inr (PList (map PDict ds))
      \<longrightarrow> fst (get_langchain_prompt_async s ts ph) =
            Inr (ChatPromptTemplate (map spec_role_message ds @ (if ph then [MessagesPlaceholder ''chat_history''] else []))))"
proof (intro conjI impI)
  show "assemble_template (PList (map PDict ds)) ph =
     Inr (ChatPromptTemplate (map spec_role_message ds @ (if ph then [MessagesPlaceholder ''chat_history''] else [])))"
    by (rule assemble_template_dicts)
next
  assume "is_connected s \<and> client s = Some c
        \<and> crespond c (ccalls c) (case selected_target s ts of
                                    Some t \<Rightarrow> Call TheClient ''get_prompt'' [PStr t] []
                                  | None \<Rightarrow> Call TheClient ''get_prompt'' [] []) = Inr (PList (map PDict ds))"
  then show "fst (get_langchain_prompt_sync s ts ph) =
            Inr (ChatPromptTemplate (map spec_role_message ds @ (if ph then [MessagesPlaceholder ''chat_history''] else [])))"
    by (simp add: get_langchain_prompt_sync_def check_connection_def cinvoke_def assemble_template_dicts)
next
  assume "is_connected s \<and> client s = Some c \<and> selected_target s ts = None
        \<and> crespond c (ccalls c) (Call TheClient ''get_prompt'' [] []) = Inr (PList (map PDict ds))"
  then show "fst (get_langchain_prompt_async s ts ph) =
            Inr (ChatPromptTemplate (map spec_role_message ds @ (if ph then [MessagesPlaceholder ''chat_history''] else [])))"
    by (simp add: get_langchain_prompt_async_def check_connection_def cinvoke_def assemble_template_dicts)
next
  assume "is_connected s \<and> client s = Some c \<and> selected_target s ts = Some t
        \<and> crespond c (ccalls c) (Call TheClient ''get_client'' [PStr t] []) = Inr sub \<and> truthy sub
        \<and> crespond c (ccalls c @ [Call TheClient ''get_client'' [PStr t] []]) (Call (SubSession sub) ''get_prompt'' [] [])
            = Inr (PList (map PDict ds))"
  then show "fst (get_langchain_prompt_async s ts ph) =
            Inr (ChatPromptTemplate (map spec_role_message ds @ (if ph then [MessagesPlaceholder ''chat_history''] else [])))"
    by (simp add: get_langchain_prompt_async_def check_connection_def cinvoke_def assemble_template_dicts)
qed

theorem prompt_conversion_witness:
  "fst (get_langchain_prompt_sync (connected_service prompt_client False) None True) =
     Inr (ChatPromptTemplate
            [ChatMessage (PStr ''system'') (PStr ''Be brief.''), HumanMessage (PStr ''Hi''),
             ChatMessage (PStr ''system'') (PStr ''no role''), AIMessage (PStr ''Hello''),
             MessagesPlaceholder ''chat_history''])
   \<and> fst (get_langchain_prompt_async (connected_service prompt_client False) None False) =
     Inr (ChatPromptTemplate
            [ChatMessage (PStr ''system'') (PStr ''Be brief.''), HumanMessage (PStr ''Hi''),
             ChatMessage (PStr ''system'') (PStr ''no role''), AIMessage (PStr ''Hello'')])
   \<and> fst (get_langchain_prompt_async (connected_service prompt_client True) (Some ''serverA'') True) =
     Inr (ChatPromptTemplate
            [ChatMessage (PStr ''system'') (PStr ''Be brief.''), HumanMessage (PStr ''Hi''),
             ChatMessage (PStr ''system'') (PStr ''no role''), AIMessage (PStr ''Hello''),
             MessagesPlaceholder ''chat_history''])"
proof (intro conjI)
  have sel: "selected_target (connected_service prompt_client False) None = None"
    by (simp add: selected_target_def)
  have sel_multi: "selected_target (connected_service prompt_client True) (Some ''serverA'') = Some ''serverA''"
    by (simp add: selected_target_def connected_service_def)
  have conn: "is_connected (connected_service prompt_client m)"
             "client (connected_service prompt_client m) = Some prompt_client" for m
    by (simp_all add: connected_service_def)
  have resp: "crespond prompt_client past call = Inr (PList (map PDict example_prompt))" for past call
    by (simp add: prompt_client_def)
  have ne: "example_prompt \<noteq> []"
    by (simp add: example_prompt_def)
  from prompt_conversion [of example_prompt True "connected_service prompt_client False" prompt_client None]
  have "fst (get_langchain_prompt_sync (connected_service prompt_client False) None True) =
        Inr (ChatPromptTemplate (map spec_role_message example_prompt @ [MessagesPlaceholder ''chat_history'']))"
    by (simp add: sel conn resp)
  then show "fst (get_langchain_prompt_sync (connected_service prompt_client False) None True) =
     Inr (ChatPromptTemplate
            [ChatMessage (PStr ''system'') (PStr ''Be brief.''), HumanMessage (PStr ''Hi''),
             ChatMessage (PStr ''system'') (PStr ''no role''), AIMessage (PStr ''Hello''),
             MessagesPlaceholder ''chat_history''])"
    by (simp add: example_prompt_converted)
  from prompt_conversion [of example_prompt False "connected_service prompt_client False" prompt_client None]
  have "fst (get_langchain_prompt_async (connected_service prompt_client False) None False) =
        Inr (ChatPromptTemplate (map spec_role_message example_prompt))"
    by (simp add: sel conn resp)
  then show "fst (get_langchain_prompt_async (connected_service prompt_client False) None False) =
     Inr (ChatPromptTemplate
            [ChatMessage (PStr ''system'') (PStr ''Be brief.''), HumanMessage (PStr ''Hi''),
             ChatMessage (PStr ''system'') (PStr ''no role''), AIMessage (PStr ''Hello'')])"
    by (simp add: example_prompt_converted)
  from prompt_conversion [of example_prompt True "connected_service prompt_client True" prompt_client
                             "Some ''serverA''" "''serverA''" "PList (map PDict example_prompt)"]
  have "fst (get_langchain_prompt_async (connected_service prompt_client True) (Some ''serverA'') True) =
        Inr (ChatPromptTemplate (map spec_role_message example_prompt @ [MessagesPlaceholder ''chat_history'']))"
    by (simp add: sel_multi conn resp ne)
  then show "fst (get_langchain_prompt_async (connected_service prompt_client True) (Some ''serverA'') True) =
     Inr (ChatPromptTemplate
            [ChatMessage (PStr ''system'') (PStr ''Be brief.''), HumanMessage (PStr ''Hi''),
             ChatMessage (PStr ''system'') (PStr ''no role''), AIMessage (PStr ''Hello''),
             MessagesPlaceholder ''chat_history''])"
    by (simp add: example_prompt_converted)
qed

subsection \<open>Connected implies created\<close>

lemma dispatch_keeps:
  "is_connected (snd (call_tool s sn tn kw)) = is_connected s \<and> (client (snd (call_tool s sn tn kw)) = None \<longrightarrow> client s = None)"
  "is_connected (snd (list_tools s pre)) = is_connected s \<and> (client (snd (list_tools s pre)) = None \<longrightarrow> client s = None)"
  "is_connected (snd (list_resources s sn)) = is_connected s \<and> (client (snd (list_resources s sn)) = None \<longrightarrow> client s = None)"
  "is_connected (snd (read_resource s rn sn)) = is_connected s \<and> (client (snd (read_resource s rn sn)) = None \<longrightarrow> client s = None)"
  "is_connected (snd (list_prompts s sn)) = is_connected s \<and> (client (snd (list_prompts s sn)) = None \<longrightarrow> client s = None)"
  "is_connected (snd (get_prompt s pn pargs sn)) = is_connected s \<and> (client (snd (get_prompt s pn pargs sn)) = None \<longrightarrow> client s = None)"
  by (simp_all add: call_tool_def list_tools_def list_resources_def read_resource_def list_prompts_def
      get_prompt_def forward_def cinvoke_def split: option.splits sum.splits)

lemma create_inv:
  assumes "is_connected s \<longrightarrow> client s \<noteq> None"
  shows "is_connected (snd (create rt s target tt command args out))
           \<longrightarrow> client (snd (create rt s target tt command args out)) \<noteq> None"
proof (cases "is_connected s")
  case True
  then show ?thesis using assms by (simp add: create_def)
next
  case nc: False
  show ?thesis
  proof (cases target)
    case (Configs cfg)
    then show ?thesis using nc
      by (simp add: create_def create_multi_server_client_def split: sum.splits)
  next
    case (Url url)
    show ?thesis
    proof (cases "tt = ''sse''")
      case True
      then show ?thesis using nc Url by (simp add: create_def split: option.splits sum.splits)
    next
      case nsse: False
      show ?thesis
      proof (cases "tt = ''stdio''")
        case True
        then show ?thesis using nc Url
          by (simp add: create_def Let_def split: option.splits sum.splits)
      next
        case False
        then show ?thesis using nc Url nsse by (simp add: create_def)
      qed
    qed
  qed
qed

lemma connect_inv:
  "is_connected (snd (connect s)) \<Longrightarrow> (is_connected s \<longrightarrow> client s \<noteq> None) \<Longrightarrow> client (snd (connect s)) \<noteq> None"
  by (auto simp add: connect_def cinvoke_def split: option.splits sum.splits)

lemma disconnect_inv:
  "is_connected (snd (disconnect s)) \<Longrightarrow> (is_connected s \<longrightarrow> client s \<noteq> None) \<Longrightarrow> client (snd (disconnect s)) \<noteq> None"
  by (auto simp add: disconnect_def cinvoke_def split: option.splits sum.splits)

lemma step_inv:
  assumes "is_connected s \<longrightarrow> client s \<noteq> None"
  shows "is_connected (step s op) \<longrightarrow> client (step s op) \<noteq> None"
proof (cases op)
  case (OpCreate rt target tt command args out)
  then show ?thesis using create_inv [OF assms] by simp
next
  case OpConnect
  then show ?thesis using connect_inv [OF _ assms] by simp
next
  case OpDisconnect
  then show ?thesis using disconnect_inv [OF _ assms] by simp
next
  case (OpCallTool sn tn kw)
  then show ?thesis using assms dispatch_keeps(1) [of s sn tn kw] by auto
next
  case (OpListTools pre)
  then show ?thesis using assms dispatch_keeps(2) [of s pre] by auto
next
  case (OpListResources sn)
  then show ?thesis using assms dispatch_keeps(3) [of s sn] by auto
next
  case (OpReadResource rn sn)
  then show ?thesis using assms dispatch_keeps(4) [of s rn sn] by auto
next
  case (OpListPrompts sn)
  then show ?thesis using assms dispatch_keeps(5) [of s sn] by auto
next
  case (OpGetPrompt pn pargs sn)
  then show ?thesis using assms dispatch_keeps(6) [of s pn pargs sn] by auto
qed

lemma run_inv:
  "(is_connected s \<longrightarrow> client s \<noteq> None) \<Longrightarrow> is_connected (run s ops) \<longrightarrow> client (run s ops) \<noteq> None"
proof (induction ops arbitrary: s)
  case Nil
  then show ?case by simp
next
  case (Cons op ops)
  from Cons.prems have "is_connected (step s op) \<longrightarrow> client (step s op) \<noteq> None" by (rule step_inv)
  then show ?case using Cons.IH by simp
qed

text \<open>
  Claim C9. In every state of the client service reached from construction by any
  sequence of \<open>create\<close>, \<open>connect\<close>, \<open>disconnect\<close> and the dispatch operations, whatever
  the runtime and the handle do, the connected flag being true implies that the handle is
  not \<open>None\<close>. So whenever \<open>_check_connection\<close> passes in such a state the guard
  \<open>self.client is None\<close> that follows it in every dispatch operation is false, and its
  "Client not created" branch is not taken.
\<close>

theorem connected_implies_created:
  "(is_connected (run (init_client_service v) ops) \<longrightarrow> client (run (init_client_service v) ops) \<noteq> None)
   \<and> (check_connection (run (init_client_service v) ops) = None \<longrightarrow> client (run (init_client_service v) ops) \<noteq> None)"
proof -
  have "is_connected (init_client_service v) \<longrightarrow> client (init_client_service v) \<noteq> None"
    by (simp add: init_client_service_def)
  then have i: "is_connected (run (init_client_service v) ops) \<longrightarrow> client (run (init_client_service v) ops) \<noteq> None"
    by (rule run_inv)
  then show ?thesis by (simp add: check_connection_def)
qed

theorem connected_implies_created_witness:
  "is_connected (run (init_client_service False)
                   [OpCreate sse_runtime (Url ''http://localhost:8000'') ''sse'' None None PNone, OpDisconnect, OpConnect])
   \<and> client (run (init_client_service False)
                   [OpCreate sse_runtime (Url ''http://localhost:8000'') ''sse'' None None PNone, OpDisconnect, OpConnect]) \<noteq> None"
proof -
  have c: "is_connected (run (init_client_service False)
                   [OpCreate sse_runtime (Url ''http://localhost:8000'') ''sse'' None None PNone, OpDisconnect, OpConnect])"
    by (simp add: init_client_service_def sse_runtime_def create_def connect_def disconnect_def cinvoke_def)
  with connected_implies_created [of False "[OpCreate sse_runtime (Url ''http://localhost:8000'') ''sse'' None None PNone, OpDisconnect, OpConnect]"]
  show ?thesis by blast
qed

subsection \<open>Defaults of the stdio transport\<close>

text \<open>
  Claim C10. In \<open>create\<close> with transport type \<open>stdio\<close> and a single URL target, passing the
  empty argument list cannot be told from passing none: for \<open>args\<close> equal to \<open>[]\<close> or to
  \<open>None\<close> the call behaves as with \<open>args = [url]\<close>, and for \<open>command\<close> equal to the empty
  string or to \<open>None\<close> it behaves as with \<open>command = "python"\<close>. With both, on a service
  that is not connected and a runtime that has the stdio imports, the process parameters
  are built from the command \<open>python\<close> and the argument list \<open>[url]\<close>.
\<close>

theorem stdio_defaults:
  "(args \<in> {None, Some []} \<longrightarrow>
      create rt s (Url url) ''stdio'' command args out = create rt s (Url url) ''stdio'' command (Some [url]) out)
   \<and> (command \<in> {None, Some []} \<longrightarrow>
      create rt s (Url url) ''stdio'' command args out = create rt s (Url url) ''stdio'' (Some ''python'') args out)
   \<and> (args \<in> {None, Some []} \<and> command \<in> {None, Some []} \<and> \<not> is_connected s
       \<and> stdio_server_parameters_cls rt = Some params_cls \<and> stdio_client_fn rt = Some client_fn \<longrightarrow>
      create rt s (Url url) ''stdio'' command args out =
        (case params_cls ''python'' [url] of
           Inl e \<Rightarrow> (Inl (Exc ''ValueError'' (''Failed to create stdio client: '' @ exc_str e)), s)
         | Inr params \<Rightarrow>
             (case client_fn params of
                Inl e \<Rightarrow> (Inl (Exc ''ValueError'' (''Failed to create stdio client: '' @ exc_str e)), s)
              | Inr c \<Rightarrow> (Inr (''Client created connected to '' @ url),
                          s\<lparr>client := Some c, is_connected := True, is_multi_client := False\<rparr>))))"
proof (intro conjI impI)
  assume a: "args \<in> {None, Some []}"
  have e: "or_default args [u] = [u]" "or_default (Some [u]) [u] = [u]" for u
    using a by (auto simp add: or_default_def)
  show "create rt s (Url url) ''stdio'' command args out = create rt s (Url url) ''stdio'' command (Some [url]) out"
    by (simp add: create_def e Let_def split: option.splits)
next
  assume c: "command \<in> {None, Some []}"
  have e: "or_default command ''python'' = ''python''" "or_default (Some ''python'') ''python'' = ''python''"
    using c by (auto simp add: or_default_def)
  show "create rt s (Url url) ''stdio'' command args out = create rt s (Url url) ''stdio'' (Some ''python'') args out"
    by (simp add: create_def e Let_def split: option.splits)
next
  assume h: "args \<in> {None, Some []} \<and> command \<in> {None, Some []} \<and> \<not> is_connected s
       \<and> stdio_server_parameters_cls rt = Some params_cls \<and> stdio_client_fn rt = Some client_fn"
  have e1: "or_default args [url] = [url]" using h by (auto simp add: or_default_def)
  have e2: "or_default command ''python'' = ''python''" using h by (auto simp add: or_default_def)
  show "create rt s (Url url) ''stdio'' command args out =
        (case params_cls ''python'' [url] of
           Inl e \<Rightarrow> (Inl (Exc ''ValueError'' (''Failed to create stdio client: '' @ exc_str e)), s)
         | Inr params \<Rightarrow>
             (case client_fn params of
                Inl e \<Rightarrow> (Inl (Exc ''ValueError'' (''Failed to create stdio client: '' @ exc_str e)), s)
              | Inr c \<Rightarrow> (Inr (''Client created connected to '' @ url),
                          s\<lparr>client := Some c, is_connected := True, is_multi_client := False\<rparr>)))"
    using h by (simp add: create_def e1 e2)
qed

theorem stdio_defaults_witness:
  "fst (create stdio_runtime (init_client_service False) (Url ''server.py'') ''stdio'' None (Some []) PNone)
     = Inr ''Client created connected to server.py''
   \<and> client (snd (create stdio_runtime (init_client_service False) (Url ''server.py'') ''stdio'' (Some []) None PNone))
     = Some \<lparr>ccalls = [],
             crespond = (\<lambda>past call. Inr (PDict [(''command'', PStr ''python''), (''args'', PList [PStr ''server.py''])]))\<rparr>"
proof -
  have n: "\<not> is_connected (init_client_service False)"
    by (simp add: init_client_service_def)
  have p: "stdio_server_parameters_cls stdio_runtime =
        Some (\<lambda>cmd cmd_args. Inr (PDict [(''command'', PStr cmd), (''args'', PList (map PStr cmd_args))]))"
    by (simp add: stdio_runtime_def)
  have f: "stdio_client_fn stdio_runtime = Some (\<lambda>params. Inr \<lparr>ccalls = [], crespond = (\<lambda>past call. Inr params)\<rparr>)"
    by (simp add: stdio_runtime_def)
  have m: "(Some [] :: string list option) \<in> {None, Some []}" "(None :: string list option) \<in> {None, Some []}"
          "(Some [] :: string option) \<in> {None, Some []}" "(None :: string option) \<in> {None, Some []}"
    by simp_all
  from stdio_defaults [of "Some []" stdio_runtime "init_client_service False" "''server.py''" None PNone
            "\<lambda>cmd cmd_args. Inr (PDict [(''command'', PStr cmd), (''args'', PList (map PStr cmd_args))])"
            "\<lambda>params. Inr \<lparr>ccalls = [], crespond = (\<lambda>past call. Inr params)\<rparr>"] n p f m
  have 1: "create stdio_runtime (init_client_service False) (Url ''server.py'') ''stdio'' None (Some []) PNone =
        (case Inr (PDict [(''command'', PStr ''python''), (''args'', PList (map PStr [''server.py'']))]) of
           Inl e \<Rightarrow> (Inl (Exc ''ValueError'' (''Failed to create stdio client: '' @ exc_str e)), init_client_service False)
         | Inr params \<Rightarrow>
             (case Inr \<lparr>ccalls = [], crespond = (\<lambda>past call. Inr params)\<rparr> of
                Inl e \<Rightarrow> (Inl (Exc ''ValueError'' (''Failed to create stdio client: '' @ exc_str e)), init_client_service False)
              | Inr c \<Rightarrow> (Inr (''Client created connected to '' @ ''server.py''),
                          (init_client_service False)\<lparr>client := Some c, is_connected := True, is_multi_client := False\<rparr>)))"
    by blast
  from stdio_defaults [of None stdio_runtime "init_client_service False" "''server.py''" "Some []" PNone
            "\<lambda>cmd cmd_args. Inr (PDict [(''command'', PStr cmd), (''args'', PList (map PStr cmd_args))])"
            "\<lambda>params. Inr \<lparr>ccalls = [], crespond = (\<lambda>past call. Inr params)\<rparr>"] n p f m
  have 2: "create stdio_runtime (init_client_service False) (Url ''server.py'') ''stdio'' (Some []) None PNone =
        (case Inr (PDict [(''command'', PStr ''python''), (''args'', PList (map PStr [''server.py'']))]) of
           Inl e \<Rightarrow> (Inl (Exc ''ValueError'' (''Failed to create stdio client: '' @ exc_str e)), init_client_service False)
         | Inr params \<Rightarrow>
             (case Inr \<lparr>ccalls = [], crespond = (\<lambda>past call. Inr params)\<rparr> of
                Inl e \<Rightarrow> (Inl (Exc ''ValueError'' (''Failed to create stdio client: '' @ exc_str e)), init_client_service False)
              | Inr c \<Rightarrow> (Inr (''Client created connected to '' @ ''server.py''),
                          (init_client_service False)\<lparr>client := Some c, is_connected := True, is_multi_client := False\<rparr>)))"
    by blast
  show ?thesis unfolding 1 2 by simp
qed

end
